theory Spec2Isabelle
  imports Complex_Main "HOL-Library.Word"
begin

section \<open>Data model\<close>

text \<open>
  The selection code of \<^verbatim>\<open>cuts.h\<close> and \<^verbatim>\<open>variables.h\<close> only compares
  floating-point fields with each other and with literals, and asks whether a value is
  NaN. A \<^verbatim>\<open>double\<close> is therefore modelled by its place in the IEEE order: a finite
  value (the real number it denotes), the two infinities, or NaN. Every ordered
  comparison with NaN is false.
\<close>

datatype double = Finite real | PosInf | NegInf | NaN

fun dlt :: "double \<Rightarrow> double \<Rightarrow> bool" where
  "dlt (Finite a) (Finite b) = (a < b)"
| "dlt (Finite a) PosInf = True"
| "dlt NegInf (Finite b) = True"
| "dlt NegInf PosInf = True"
| "dlt a b = False"

definition dgt :: "double \<Rightarrow> double \<Rightarrow> bool" where
  "dgt a b = dlt b a"

definition dle :: "double \<Rightarrow> double \<Rightarrow> bool" where
  "dle a b = (dlt a b \<or> (a = b \<and> a \<noteq> NaN))"

definition dge :: "double \<Rightarrow> double \<Rightarrow> bool" where
  "dge a b = dle b a"

definition isnan :: "double \<Rightarrow> bool" where
  "isnan a = (a = NaN)"

text \<open>
  A decimal literal of the source denotes the double nearest to it. The literals
  \<^verbatim>\<open>0\<close>, \<^verbatim>\<open>25\<close>, \<^verbatim>\<open>50\<close>, \<^verbatim>\<open>60\<close>, \<^verbatim>\<open>290\<close> and \<^verbatim>\<open>390\<close> are
  doubles themselves. The other four are not, and the comparisons of the code are with
  these values:
  \<^item> \<^verbatim>\<open>143.425\<close> is \<^verbatim>\<open>0x1.1ed999999999ap+7\<close>, above the decimal;
  \<^item> \<^verbatim>\<open>210.215\<close> is \<^verbatim>\<open>0x1.a46e147ae147bp+7\<close>, above the decimal;
  \<^item> \<^verbatim>\<open>1.6\<close> is \<^verbatim>\<open>0x1.999999999999ap+0\<close>, above the decimal;
  \<^item> \<^verbatim>\<open>9.6\<close> is \<^verbatim>\<open>0x1.3333333333333p+3\<close>, below the decimal.
\<close>

definition lit_143_425 :: real where
  "lit_143_425 = 2523159283420365 / 17592186044416"

definition lit_210_215 :: real where
  "lit_210_215 = 7396282778653819 / 35184372088832"

definition lit_1_6 :: real where
  "lit_1_6 = 3602879701896397 / 2251799813685248"

definition lit_9_6 :: real where
  "lit_9_6 = 5404319552844595 / 562949953421312"

text \<open>
  The record variant (template parameter \<^verbatim>\<open>T\<close> of every function) is either the
  simulated truth or the reconstruction; \<^verbatim>\<open>if constexpr\<close> on it becomes a case
  distinction on this tag.
\<close>

datatype variant = Truth | Reco

text \<open>
  Modelled from the spec: the record classes of particles and interactions (the
  \<^verbatim>\<open>caf\<close> proxies), which are declared outside the repository. The fields the
  selection reads are collected here, with the types the code uses them at:
  \<^verbatim>\<open>pid\<close>, \<^verbatim>\<open>nu_id\<close>, \<^verbatim>\<open>current_type\<close>, \<^verbatim>\<open>pdg_code\<close> and
  \<^verbatim>\<open>interaction_mode\<close> are compared with integer literals and are signed integers
  (the data model gives the type codes 0..5 to \<^verbatim>\<open>pid\<close>), \<^verbatim>\<open>vertex\<close> is a fixed
  array of three doubles, read at the constant indices 0, 1 and 2 only,
  \<^verbatim>\<open>match_ids\<close> is a vector of integers.
\<close>

record particle =
  is_primary :: bool
  pid :: int
  energy_deposit :: double
  calo_ke :: double
  csda_ke :: double

datatype vec3 = Vec3 double double double

fun vec3_at0 :: "vec3 \<Rightarrow> double" where "vec3_at0 (Vec3 x y z) = x"
fun vec3_at1 :: "vec3 \<Rightarrow> double" where "vec3_at1 (Vec3 x y z) = y"
fun vec3_at2 :: "vec3 \<Rightarrow> double" where "vec3_at2 (Vec3 x y z) = z"

record interaction =
  particles :: "particle list"
  vertex :: vec3
  is_fiducial :: bool
  is_contained :: bool
  nu_id :: int
  current_type :: int
  pdg_code :: int
  interaction_mode :: int
  flash_time :: double
  is_flash_matched :: bool
  match_ids :: "int list"

section \<open>Vectors of counters\<close>

text \<open>
  \<^verbatim>\<open>std::vector<uint32_t>\<close> is a list of 32-bit words. \<^verbatim>\<open>operator[]\<close> does not
  check its index: a read or write at an index that is not below the size has no defined
  behaviour. The model makes that an error value, which every caller passes on. The index
  is converted to \<^verbatim>\<open>size_t\<close>, so a negative index is out of range as well.
\<close>

datatype error = OutOfRange

type_synonym counts = "32 word list"

definition vec_at :: "'a list \<Rightarrow> int \<Rightarrow> error + 'a" where
  "vec_at xs k = (if 0 \<le> k \<and> k < int (length xs) then Inr (xs ! nat k) else Inl OutOfRange)"

definition vec_incr :: "counts \<Rightarrow> int \<Rightarrow> error + counts" where
  "vec_incr xs k =
     (if 0 \<le> k \<and> k < int (length xs) then Inr (xs[nat k := xs ! nat k + 1])
      else Inl OutOfRange)"

text \<open>A test \<^verbatim>\<open>c[k] == n\<close> or \<^verbatim>\<open>c[k] >= n\<close> on a vector element.\<close>

definition test_at :: "counts \<Rightarrow> int \<Rightarrow> (32 word \<Rightarrow> bool) \<Rightarrow> error + bool" where
  "test_at c k P = (case vec_at c k of Inl e \<Rightarrow> Inl e | Inr x \<Rightarrow> Inr (P x))"

text \<open>
  \<^verbatim>\<open>a && b && ...\<close>: the operands are evaluated from left to right, and evaluation
  stops at the first false one, so that an operand after it is never evaluated.
\<close>

fun conj_chain :: "(error + bool) list \<Rightarrow> error + bool" where
  "conj_chain [] = Inr True"
| "conj_chain (Inl e # rest) = Inl e"
| "conj_chain (Inr False # rest) = Inr False"
| "conj_chain (Inr True # rest) = conj_chain rest"

text \<open>\<^verbatim>\<open>if (c) a else b\<close> where the condition may itself fail.\<close>

definition if_res :: "(error + bool) \<Rightarrow> (error + 'a) \<Rightarrow> (error + 'a) \<Rightarrow> error + 'a" where
  "if_res c a b = (case c of Inl e \<Rightarrow> Inl e | Inr True \<Rightarrow> a | Inr False \<Rightarrow> b)"

section \<open>Selection cuts (\<^verbatim>\<open>cuts.h\<close>)\<close>

definition matched :: "interaction \<Rightarrow> bool" where
  "matched obj = (length (match_ids obj) > 0)"

definition valid_flashmatch :: "interaction \<Rightarrow> bool" where
  "valid_flashmatch i = (\<not> isnan (flash_time i) \<and> is_flash_matched i)"

definition final_state_signal :: "variant \<Rightarrow> particle \<Rightarrow> bool" where
  "final_state_signal v p =
     (if is_primary p then
        (let energy0 = (if pid p > 1 then csda_ke p else calo_ke p);
             energy = (case v of Truth \<Rightarrow> energy_deposit p | Reco \<Rightarrow> energy0)
         in (pid p = 2 \<and> dgt energy (Finite lit_143_425))
            \<or> (pid p \<noteq> 2 \<and> pid p < 4 \<and> dgt energy (Finite 25))
            \<or> (pid p = 4 \<and> dgt energy (Finite 50)))
      else False)"

text \<open>The loop of \<^verbatim>\<open>count_primaries\<close> over the particles, with the vector as state.\<close>

fun count_loop :: "variant \<Rightarrow> particle list \<Rightarrow> counts \<Rightarrow> error + counts" where
  "count_loop v [] counts = Inr counts"
| "count_loop v (p # ps) counts =
     (if final_state_signal v p then
        (case vec_incr counts (pid p) of
           Inl e \<Rightarrow> Inl e
         | Inr counts' \<Rightarrow> count_loop v ps counts')
      else count_loop v ps counts)"

definition count_primaries :: "variant \<Rightarrow> interaction \<Rightarrow> error + counts" where
  "count_primaries v i = count_loop v (particles i) (replicate 5 0)"

text \<open>
  \<^verbatim>\<open>operator<<\<close> of an output stream on an unsigned integer writes its decimal
  digits, most significant first, without padding.
\<close>

definition digit_char :: "nat \<Rightarrow> char" where
  "digit_char d = char_of (48 + d)"

fun string_of_nat :: "nat \<Rightarrow> string" where
  "string_of_nat n =
     (if n < 10 then [digit_char n] else string_of_nat (n div 10) @ [digit_char (n mod 10)])"

declare string_of_nat.simps [simp del]

definition put_u32 :: "string \<Rightarrow> 32 word \<Rightarrow> string" where
  "put_u32 ss x = ss @ string_of_nat (unat x)"

definition put_str :: "string \<Rightarrow> string \<Rightarrow> string" where
  "put_str ss s = ss @ s"

definition topology :: "variant \<Rightarrow> interaction \<Rightarrow> error + string" where
  "topology v i =
     (case count_primaries v i of
        Inl e \<Rightarrow> Inl e
      | Inr counts \<Rightarrow>
         (case vec_at counts 0 of Inl e \<Rightarrow> Inl e | Inr c0 \<Rightarrow>
          let ss = put_str (put_u32 [] c0) ''ph'' in
         (case vec_at counts 1 of Inl e \<Rightarrow> Inl e | Inr c1 \<Rightarrow>
          let ss = put_str (put_u32 ss c1) ''e'' in
         (case vec_at counts 2 of Inl e \<Rightarrow> Inl e | Inr c2 \<Rightarrow>
          let ss = put_str (put_u32 ss c2) ''mu'' in
         (case vec_at counts 3 of Inl e \<Rightarrow> Inl e | Inr c3 \<Rightarrow>
          let ss = put_str (put_u32 ss c3) ''pi'' in
         (case vec_at counts 4 of Inl e \<Rightarrow> Inl e | Inr c4 \<Rightarrow>
          let ss = put_str (put_u32 ss c4) ''p'' in
          Inr ss))))))"

definition topological_1muNp_cut :: "variant \<Rightarrow> interaction \<Rightarrow> error + bool" where
  "topological_1muNp_cut v i =
     (case count_primaries v i of
        Inl e \<Rightarrow> Inl e
      | Inr c \<Rightarrow>
          conj_chain
            [test_at c 0 (\<lambda>x. x = 0), test_at c 1 (\<lambda>x. x = 0), test_at c 2 (\<lambda>x. x = 1),
             test_at c 3 (\<lambda>x. x = 0), test_at c 4 (\<lambda>x. x \<ge> 1), test_at c 5 (\<lambda>x. x = 0)])"

definition fiducial_cut :: "interaction \<Rightarrow> bool" where
  "fiducial_cut i =
     (is_fiducial i \<and>
      \<not> (dgt (vec3_at0 (vertex i)) (Finite lit_210_215) \<and> dgt (vec3_at1 (vertex i)) (Finite 60) \<and>
         (dgt (vec3_at2 (vertex i)) (Finite 290) \<and> dlt (vec3_at2 (vertex i)) (Finite 390))))"

definition containment_cut :: "interaction \<Rightarrow> bool" where
  "containment_cut i = is_contained i"

definition flash_cut_bnb :: "interaction \<Rightarrow> bool" where
  "flash_cut_bnb i =
     (if \<not> valid_flashmatch i then False
      else dge (flash_time i) (Finite 0) \<and> dle (flash_time i) (Finite lit_1_6))"

definition flash_cut_numi :: "interaction \<Rightarrow> bool" where
  "flash_cut_numi i =
     (if \<not> valid_flashmatch i then False
      else dge (flash_time i) (Finite 0) \<and> dle (flash_time i) (Finite lit_9_6))"

definition all_1muNp_cut :: "variant \<Rightarrow> interaction \<Rightarrow> error + bool" where
  "all_1muNp_cut v i =
     conj_chain [topological_1muNp_cut v i, Inr (fiducial_cut i), Inr (containment_cut i),
                 Inr (flash_cut_numi i)]"

definition neutrino :: "interaction \<Rightarrow> bool" where
  "neutrino i = (nu_id i > -1)"

definition cosmic :: "interaction \<Rightarrow> bool" where
  "cosmic i = (nu_id i = -1)"

definition matched_neutrino :: "interaction \<Rightarrow> bool" where
  "matched_neutrino i = (length (match_ids i) > 0 \<and> neutrino i)"

definition matched_cosmic :: "interaction \<Rightarrow> bool" where
  "matched_cosmic i = (length (match_ids i) > 0 \<and> cosmic i)"

definition signal_1muNp :: "variant \<Rightarrow> interaction \<Rightarrow> error + bool" where
  "signal_1muNp v i = conj_chain [topological_1muNp_cut v i, Inr (neutrino i)]"

definition other_nu_1muNp :: "variant \<Rightarrow> interaction \<Rightarrow> error + bool" where
  "other_nu_1muNp v i =
     conj_chain [map_sum (\<lambda>e. e) (\<lambda>b. \<not> b) (topological_1muNp_cut v i), Inr (neutrino i)]"

section \<open>Selection variables (\<^verbatim>\<open>variables.h\<close>)\<close>

text \<open>
  The category functions return a small integer label (converted to \<^verbatim>\<open>double\<close> on
  return); the model keeps the integer.
\<close>

definition category :: "variant \<Rightarrow> interaction \<Rightarrow> error + nat" where
  "category v i =
     if_res (signal_1muNp v i)
       (if fiducial_cut i \<and> containment_cut i then Inr 0 else Inr 1)
       (if_res (other_nu_1muNp v i) (Inr 2) (Inr 3))"

definition category_topology :: "variant \<Rightarrow> interaction \<Rightarrow> error + nat" where
  "category_topology v i =
     (if nu_id i \<ge> 0 then
        (case count_primaries v i of
           Inl e \<Rightarrow> Inl e
         | Inr counts \<Rightarrow>
            if_res (conj_chain [test_at counts 0 (\<lambda>x. x = 0), test_at counts 1 (\<lambda>x. x = 0),
                                test_at counts 2 (\<lambda>x. x = 1)])
              (if_res (conj_chain [test_at counts 3 (\<lambda>x. x = 0), test_at counts 4 (\<lambda>x. x = 1),
                                   Inr (is_contained i), Inr (is_fiducial i)]) (Inr 2)
              (if_res (conj_chain [test_at counts 3 (\<lambda>x. x = 0), test_at counts 4 (\<lambda>x. x = 1)])
                 (Inr 7)
              (if_res (conj_chain [test_at counts 3 (\<lambda>x. x = 0), test_at counts 4 (\<lambda>x. x = 0)])
                 (Inr 4)
              (if_res (conj_chain [test_at counts 3 (\<lambda>x. x = 0), test_at counts 4 (\<lambda>x. x > 1),
                                   Inr (is_contained i), Inr (is_fiducial i)]) (Inr 2)
              (if_res (conj_chain [test_at counts 3 (\<lambda>x. x = 0), test_at counts 4 (\<lambda>x. x > 1)])
                 (Inr 7)
              (if_res (conj_chain [test_at counts 3 (\<lambda>x. x = 1), test_at counts 4 (\<lambda>x. x = 1)])
                 (Inr 4)
              (if current_type i = 0 then Inr 4 else Inr 6)))))))
              (if current_type i = 0 then Inr 4
               else if current_type i = 1 then Inr 5
               else Inr 6))
      else Inr 6)"

definition category_interaction_mode :: "interaction \<Rightarrow> nat" where
  "category_interaction_mode i =
     (if nu_id i > -1 then
        (if current_type i = 0 then
           (if \<bar>pdg_code i\<bar> = 14 then
              (if interaction_mode i = 0 then 0
               else if interaction_mode i = 1 then 1
               else if interaction_mode i = 10 then 2
               else if interaction_mode i = 2 then 3
               else if interaction_mode i = 3 then 4
               else 8)
            else 5)
         else 6)
      else 7)"

section \<open>Reference definitions from the specification\<close>

text \<open>
  The particle types of the data model and their type codes. A code outside 0..5 names no
  type.
\<close>

datatype particle_type = Photon | Electron | Muon | Pion | Proton | Other

definition type_of_code :: "int \<Rightarrow> particle_type option" where
  "type_of_code k =
     (if k = 0 then Some Photon else if k = 1 then Some Electron
      else if k = 2 then Some Muon else if k = 3 then Some Pion
      else if k = 4 then Some Proton else if k = 5 then Some Other
      else None)"

text \<open>
  The energy model of the specification: the deposited energy for the truth variant, the
  calorimetric estimate for type codes below 2 and the range-based estimate otherwise
  for the reconstructed variant.
\<close>

definition kinetic_energy :: "variant \<Rightarrow> particle \<Rightarrow> double" where
  "kinetic_energy v p =
     (case v of
        Truth \<Rightarrow> energy_deposit p
      | Reco \<Rightarrow> (if pid p < 2 then calo_ke p else csda_ke p))"

text \<open>
  The number of particles of a list that pass the particle-level cut and carry the type
  code \<open>k\<close>: what bucket \<open>k\<close> of the topology counter is meant to hold.
\<close>

definition n_signal :: "variant \<Rightarrow> particle list \<Rightarrow> int \<Rightarrow> nat" where
  "n_signal v ps k = length (filter (\<lambda>p. final_state_signal v p \<and> pid p = k) ps)"

text \<open>Reading a string of decimal digits back as a number.\<close>

definition value_of_digits :: "string \<Rightarrow> nat" where
  "value_of_digits s = foldl (\<lambda>a ch. 10 * a + (of_char ch - 48)) 0 s"

text \<open>The rendering of five counts as a topology label.\<close>

definition label_of_counts :: "nat \<Rightarrow> nat \<Rightarrow> nat \<Rightarrow> nat \<Rightarrow> nat \<Rightarrow> string" where
  "label_of_counts nph ne nmu npi npr =
     string_of_nat nph @ ''ph'' @ string_of_nat ne @ ''e'' @ string_of_nat nmu @ ''mu'' @
     string_of_nat npi @ ''pi'' @ string_of_nat npr @ ''p''"

section \<open>Example records\<close>

definition mk_particle :: "int \<Rightarrow> double \<Rightarrow> particle" where
  "mk_particle t e =
     \<lparr>is_primary = True, pid = t, energy_deposit = e, calo_ke = e, csda_ke = e\<rparr>"

text \<open>
  One primary muon of 200 MeV and one primary proton of 60 MeV, fiducial and contained,
  vertex at the origin, flash matched at time 1, a charged-current muon-neutrino
  quasi-elastic interaction.
\<close>

definition ex_1mu1p :: interaction where
  "ex_1mu1p =
     \<lparr>particles = [mk_particle 2 (Finite 200), mk_particle 4 (Finite 60)],
      vertex = Vec3 (Finite 0) (Finite 0) (Finite 0),
      is_fiducial = True, is_contained = True, nu_id = 0, current_type = 0, pdg_code = 14,
      interaction_mode = 0, flash_time = Finite 1, is_flash_matched = True, match_ids = [0]\<rparr>"

text \<open>An interaction without particles whose origin is neither neutrino nor cosmic.\<close>

definition ex_empty :: interaction where
  "ex_empty = ex_1mu1p\<lparr>particles := [], nu_id := - 2\<rparr>"



text \<open>One primary muon and two primary protons above threshold.\<close>

definition ex_1mu2p :: interaction where
  "ex_1mu2p =
     ex_1mu1p\<lparr>particles :=
       [mk_particle 2 (Finite 200), mk_particle 4 (Finite 60), mk_particle 4 (Finite 90)]\<rparr>"

section \<open>Counting primaries\<close>

lemma vec_incr_length: "vec_incr c k = Inr c' \<Longrightarrow> length c' = length c"
  by (auto simp: vec_incr_def split: if_splits)

lemma count_loop_length: "count_loop v ps c = Inr c' \<Longrightarrow> length c' = length c"
proof (induction ps arbitrary: c)
  case Nil
  then show ?case by simp
next
  case (Cons p ps)
  then show ?case
    by (auto split: if_splits sum.splits dest: vec_incr_length)
qed

lemma count_primaries_length: "count_primaries v i = Inr c \<Longrightarrow> length c = 5"
  using count_loop_length [of v "particles i" "replicate 5 0" c]
  by (simp add: count_primaries_def)

lemma replicate_5: "replicate 5 x = [x, x, x, x, x]"
  by (simp add: numeral_eq_Suc)

lemma length_5_shape: "length c = 5 \<Longrightarrow> \<exists>a0 a1 a2 a3 a4. c = [a0, a1, a2, a3, a4]"
  by (simp add: numeral_eq_Suc length_Suc_conv) blast

lemma vec_at_5:
  "vec_at [a0, a1, a2, a3, a4] 0 = Inr a0"
  "vec_at [a0, a1, a2, a3, a4] 1 = Inr a1"
  "vec_at [a0, a1, a2, a3, a4] 2 = Inr a2"
  "vec_at [a0, a1, a2, a3, a4] 3 = Inr a3"
  "vec_at [a0, a1, a2, a3, a4] 4 = Inr a4"
  "vec_at [a0, a1, a2, a3, a4] 5 = Inl OutOfRange"
  by (simp_all add: vec_at_def)

lemma test_at_5:
  "test_at [a0, a1, a2, a3, a4] 0 P = Inr (P a0)"
  "test_at [a0, a1, a2, a3, a4] 1 P = Inr (P a1)"
  "test_at [a0, a1, a2, a3, a4] 2 P = Inr (P a2)"
  "test_at [a0, a1, a2, a3, a4] 3 P = Inr (P a3)"
  "test_at [a0, a1, a2, a3, a4] 4 P = Inr (P a4)"
  "test_at [a0, a1, a2, a3, a4] 5 P = Inl OutOfRange"
  by (simp_all add: test_at_def vec_at_5)

lemma conj_chain_Inr: "conj_chain (Inr b # rest) = (if b then conj_chain rest else Inr False)"
  by (cases b) simp_all

lemma conj_chain_verdicts:
  "conj_chain [Inr t, Inr f, Inr c, Inr n] = Inr (t \<and> f \<and> c \<and> n)"
  by (simp add: conj_chain_Inr)

lemma count_primaries_shape:
  "count_primaries v i = Inr c \<Longrightarrow> \<exists>nph ne nmu npi npr. c = [nph, ne, nmu, npi, npr]"
  by (rule length_5_shape) (rule count_primaries_length)

lemma topological_1muNp_cut_counts:
  assumes "count_primaries v i = Inr [nph, ne, nmu, npi, npr]"
  shows "topological_1muNp_cut v i =
           (if nph = 0 \<and> ne = 0 \<and> nmu = 1 \<and> npi = 0 \<and> npr \<ge> 1 then Inl OutOfRange else Inr False)"
  using assms by (simp add: topological_1muNp_cut_def test_at_5 conj_chain_Inr)

lemma topological_1muNp_cut_not_true: "topological_1muNp_cut v i \<noteq> Inr True"
proof (cases "count_primaries v i")
  case (Inl e)
  then show ?thesis by (simp add: topological_1muNp_cut_def)
next
  case (Inr c)
  then obtain nph ne nmu npi npr where "c = [nph, ne, nmu, npi, npr]"
    using count_primaries_shape by blast
  with Inr show ?thesis
    by (simp add: topological_1muNp_cut_counts)
qed

lemma final_state_signal_pid_less: "final_state_signal v p \<Longrightarrow> pid p < 5"
  by (auto simp: final_state_signal_def Let_def split: if_splits)

lemma count_loop_total:
  assumes "\<forall>p\<in>set ps. final_state_signal v p \<longrightarrow> 0 \<le> pid p" and "length c = 5"
  shows "\<exists>c'. count_loop v ps c = Inr c'"
  using assms
proof (induction ps arbitrary: c)
  case Nil
  then show ?case by simp
next
  case (Cons p ps)
  show ?case
  proof (cases "final_state_signal v p")
    case True
    with Cons.prems have rng: "0 \<le> pid p" "pid p < 5"
      by (auto dest: final_state_signal_pid_less)
    with Cons.prems(2) obtain c1 where c1: "vec_incr c (pid p) = Inr c1"
      by (simp add: vec_incr_def)
    then have "length c1 = 5"
      using Cons.prems(2) by (simp add: vec_incr_length)
    with Cons.IH [of c1] Cons.prems(1) obtain c' where "count_loop v ps c1 = Inr c'"
      by auto
    with True c1 show ?thesis by simp
  next
    case False
    with Cons.IH [of c] Cons.prems show ?thesis by simp
  qed
qed


lemma vec_incr_nth:
  "vec_incr c j = Inr c' \<Longrightarrow> k < length c \<Longrightarrow>
     c' ! k = (if j = int k then c ! k + 1 else c ! k)"
  by (auto simp: vec_incr_def nth_list_update split: if_splits)

lemma count_loop_values:
  "count_loop v ps c = Inr c' \<Longrightarrow> k < length c \<Longrightarrow>
     c' ! k = c ! k + word_of_nat (n_signal v ps (int k))"
proof (induction ps arbitrary: c)
  case Nil
  then show ?case by (simp add: n_signal_def)
next
  case (Cons p ps)
  show ?case
  proof (cases "final_state_signal v p")
    case True
    with Cons.prems(1) obtain c1 where c1: "vec_incr c (pid p) = Inr c1"
      and rest: "count_loop v ps c1 = Inr c'"
      by (auto split: sum.splits)
    have len: "length c1 = length c"
      using c1 by (rule vec_incr_length)
    have "c' ! k = c1 ! k + word_of_nat (n_signal v ps (int k))"
      using Cons.IH [OF rest] Cons.prems(2) len by simp
    moreover have "c1 ! k = (if pid p = int k then c ! k + 1 else c ! k)"
      using c1 Cons.prems(2) by (rule vec_incr_nth)
    ultimately show ?thesis
      using True by (simp add: n_signal_def)
  next
    case False
    with Cons.prems have "count_loop v ps c = Inr c'"
      by simp
    from Cons.IH [OF this Cons.prems(2)] False show ?thesis
      by (simp add: n_signal_def)
  qed
qed

lemma count_primaries_values:
  assumes "count_primaries v i = Inr [a0, a1, a2, a3, a4]"
  shows "a0 = word_of_nat (n_signal v (particles i) 0)"
    and "a1 = word_of_nat (n_signal v (particles i) 1)"
    and "a2 = word_of_nat (n_signal v (particles i) 2)"
    and "a3 = word_of_nat (n_signal v (particles i) 3)"
    and "a4 = word_of_nat (n_signal v (particles i) 4)"
  using assms
    count_loop_values [of v "particles i" "replicate 5 0" "[a0, a1, a2, a3, a4]" 0]
    count_loop_values [of v "particles i" "replicate 5 0" "[a0, a1, a2, a3, a4]" 1]
    count_loop_values [of v "particles i" "replicate 5 0" "[a0, a1, a2, a3, a4]" 2]
    count_loop_values [of v "particles i" "replicate 5 0" "[a0, a1, a2, a3, a4]" 3]
    count_loop_values [of v "particles i" "replicate 5 0" "[a0, a1, a2, a3, a4]" 4]
  by (simp_all add: count_primaries_def)

lemma count_primaries_total:
  assumes "\<forall>p\<in>set (particles i). pid p \<in> {0..5}"
  shows "\<exists>c. count_primaries v i = Inr c"
  unfolding count_primaries_def
  by (rule count_loop_total) (use assms in auto)

text \<open>
  A type code below 0 is outside the data model. The particle-level cut has no lower
  bound on the code, so a primary particle with code \<open>-1\<close> above 25 passes it, and the
  counter is then indexed out of range.
\<close>

lemma count_primaries_negative_code:
  "final_state_signal Reco (mk_particle (- 1) (Finite 30)) \<and>
   count_primaries Reco (ex_1mu1p\<lparr>particles := [mk_particle (- 1) (Finite 30)]\<rparr>) =
     Inl OutOfRange"
  by code_simp

section \<open>Literals\<close>

text \<open>
  Each of the four constants lies on the grid of doubles of its binade and within half a
  unit in the last place of the decimal it is written as.
\<close>

lemma lit_143_425_rounding:
  "lit_143_425 = 5046318566840730 / 2 ^ 45 \<and> 143.425 < lit_143_425 \<and>
   lit_143_425 - 143.425 < 1 / 2 ^ 46"
  by (simp add: lit_143_425_def)

lemma lit_210_215_rounding:
  "lit_210_215 = 7396282778653819 / 2 ^ 45 \<and> 210.215 < lit_210_215 \<and>
   lit_210_215 - 210.215 < 1 / 2 ^ 46"
  by (simp add: lit_210_215_def)

lemma lit_1_6_rounding:
  "lit_1_6 = 7205759403792794 / 2 ^ 52 \<and> 1.6 < lit_1_6 \<and> lit_1_6 - 1.6 < 1 / 2 ^ 53"
  by (simp add: lit_1_6_def)

lemma lit_9_6_rounding:
  "lit_9_6 = 5404319552844595 / 2 ^ 49 \<and> lit_9_6 < 9.6 \<and> 9.6 - lit_9_6 < 1 / 2 ^ 50"
  by (simp add: lit_9_6_def)

text \<open>
  The doubles from 128 up to 256 are the multiples of \<open>2 ^ -45\<close> there. On them the test
  \<^verbatim>\<open>energy > 143.425\<close> of the code agrees with the comparison with the decimal, except
  at the double written \<^verbatim>\<open>143.425\<close> itself, which does not pass.
\<close>

lemma lit_143_425_grid:
  "lit_143_425 < real_of_int k / 2 ^ 45 \<longleftrightarrow>
     143.425 < real_of_int k / 2 ^ 45 \<and> real_of_int k / 2 ^ 45 \<noteq> lit_143_425"
proof -
  have a: "lit_143_425 < real_of_int k / 2 ^ 45 \<longleftrightarrow> 5046318566840730 < k"
    by (simp add: lit_143_425_def field_simps)
  have b: "real_of_int k / 2 ^ 45 = lit_143_425 \<longleftrightarrow> k = 5046318566840730"
    by (simp add: lit_143_425_def field_simps)
  have "143.425 < real_of_int k / 2 ^ 45 \<longleftrightarrow>
          real_of_int (143425 * 2 ^ 45) < real_of_int (1000 * k)"
    by (simp add: field_simps)
  also have "\<dots> \<longleftrightarrow> 143425 * 2 ^ 45 < 1000 * k"
    by (simp only: of_int_less_iff)
  also have "\<dots> \<longleftrightarrow> 5046318566840730 \<le> k"
    by simp linarith
  finally have c: "143.425 < real_of_int k / 2 ^ 45 \<longleftrightarrow> 5046318566840730 \<le> k" .
  show ?thesis
    unfolding a b c by auto
qed

section \<open>Auxiliary facts\<close>

lemma if_res_Inr: "if_res (Inr b) x y = (if b then x else y)"
  by (cases b) (simp_all add: if_res_def)

lemma word32_gt_1: "(1::32 word) < x \<longleftrightarrow> x \<noteq> 0 \<and> x \<noteq> 1"
proof -
  have "x = 0 \<longleftrightarrow> unat x = 0"
    by (simp add: word_unat_eq_iff)
  moreover have "x = 1 \<longleftrightarrow> unat x = 1"
    by (simp add: word_unat_eq_iff)
  moreover have "1 < x \<longleftrightarrow> 1 < unat x"
    by (simp add: word_less_nat_alt)
  ultimately show ?thesis
    by arith
qed

lemma digit_char_value: "d < 10 \<Longrightarrow> of_char (digit_char d) = 48 + d"
  by (simp add: digit_char_def)

text \<open>
  The decimal rendering is never empty, consists of digits only, and reads back as the
  number written, so the letters of a topology label separate its five fields.
\<close>

lemma string_of_nat_digits:
  "string_of_nat n \<noteq> [] \<and> (\<forall>ch\<in>set (string_of_nat n). ch \<in> digit_char ` {..<10}) \<and>
   value_of_digits (string_of_nat n) = n"
  unfolding value_of_digits_def
proof (induction n rule: string_of_nat.induct)
  case (1 n)
  show ?case
  proof (cases "n < 10")
    case True
    then show ?thesis
      by (subst (1 2 3) string_of_nat.simps) (simp add: digit_char_value)
  next
    case False
    with 1 show ?thesis
      by (subst (1 2 3) string_of_nat.simps) (simp add: digit_char_value)
  qed
qed

lemma flash_cut_numi_window:
  "flash_cut_numi i \<longleftrightarrow>
     is_flash_matched i \<and> (\<exists>t. flash_time i = Finite t \<and> 0 \<le> t \<and> t \<le> lit_9_6)"
  by (cases "flash_time i")
    (auto simp: flash_cut_numi_def valid_flashmatch_def isnan_def dge_def dle_def)

lemma topology_counts:
  "count_primaries v i = Inr [nph, ne, nmu, npi, npr] \<Longrightarrow>
     topology v i = Inr (label_of_counts (unat nph) (unat ne) (unat nmu) (unat npi) (unat npr))"
  by (simp add: topology_def vec_at_5 put_u32_def put_str_def label_of_counts_def
     )

lemma category_topology_counts:
  assumes "count_primaries v i = Inr [nph, ne, nmu, npi, npr]" and "0 \<le> nu_id i"
  shows "category_topology v i =
           Inr (if nph = 0 \<and> ne = 0 \<and> nmu = 1 then
                  (if npi = 0 \<and> npr = 0 then 4
                   else if npi = 0 then (if is_contained i \<and> is_fiducial i then 2 else 7)
                   else if npi = 1 \<and> npr = 1 then 4
                   else if current_type i = 0 then 4 else 6)
                else if current_type i = 0 then 4
                else if current_type i = 1 then 5 else 6)"
  using assms
  by (simp add: category_topology_def test_at_5 conj_chain_Inr if_res_Inr word32_gt_1)

section \<open>The topological cut\<close>

text \<open>
  Apart from the read at index 5, the combined cut is the conjunction of its four
  sub-cuts, and the coarse category follows the two signal definitions.
\<close>

lemma all_1muNp_cut_conj:
  "all_1muNp_cut v i =
     (case topological_1muNp_cut v i of
        Inl e \<Rightarrow> Inl e
      | Inr t \<Rightarrow> Inr (t \<and> fiducial_cut i \<and> containment_cut i \<and> flash_cut_numi i))"
  by (simp add: all_1muNp_cut_def conj_chain_Inr split: sum.splits)

lemma all_1muNp_cut_not_true: "all_1muNp_cut v i \<noteq> Inr True"
  using topological_1muNp_cut_not_true [of v i]
  by (cases "topological_1muNp_cut v i") (auto simp: all_1muNp_cut_conj)

lemma signal_1muNp_not_true: "signal_1muNp v i \<noteq> Inr True"
  using topological_1muNp_cut_not_true [of v i]
  by (cases "topological_1muNp_cut v i") (auto simp: signal_1muNp_def conj_chain_Inr)

lemma category_range: "category v i = Inr n \<Longrightarrow> n = 2 \<or> n = 3"
  using signal_1muNp_not_true [of v i]
  by (cases "signal_1muNp v i"; cases "other_nu_1muNp v i")
    (auto simp: category_def if_res_def split: if_splits bool.splits)

text \<open>
  An origin below \<open>-1\<close> is neither neutrino nor cosmic. On such an interaction the
  category is 3 whenever the topological cut yields a value.
\<close>

lemma neutrino_cosmic_not_exhaustive: "nu_id i < - 1 \<Longrightarrow> \<not> neutrino i \<and> \<not> cosmic i"
  by (simp add: neutrino_def cosmic_def)

lemma category_cosmic_fallback:
  assumes "nu_id i < - 1" and "topological_1muNp_cut v i = Inr t"
  shows "signal_1muNp v i = Inr False \<and> other_nu_1muNp v i = Inr False \<and>
         category v i = Inr 3"
proof -
  from assms(1) have nn: "\<not> neutrino i"
    by (simp add: neutrino_def)
  with assms(2) have s: "signal_1muNp v i = Inr False" and o: "other_nu_1muNp v i = Inr False"
    by (simp_all add: signal_1muNp_def other_nu_1muNp_def conj_chain_Inr)
  from s o have "category v i = Inr 3"
    by (simp add: category_def if_res_def)
  with s o show ?thesis by simp
qed

section \<open>Claims\<close>

text \<open>
  Claim C1 states that \<^verbatim>\<open>topological_1muNp_cut\<close> returns true exactly when the counts
  of \<^verbatim>\<open>count_primaries\<close> have no photon, no electron, one muon, no pion and at least
  one proton, and that nothing else decides the result. The code tests a sixth element,
  \<^verbatim>\<open>c[5] == 0\<close>, of the five-element vector. For the reconstructed interaction with one
  primary muon (200) and one primary proton (60) the five conditions hold, and the cut
  then reads past the end of the vector instead of returning true.
\<close>

theorem topological_1muNp_cut_reads_past_end:
  "count_primaries Reco ex_1mu1p = Inr [0, 0, 1, 0, 1] \<and>
   topological_1muNp_cut Reco ex_1mu1p = Inl OutOfRange"
  by code_simp

text \<open>
  Claim C2 states that every interaction-level cut is a total boolean function whose
  vector accesses are all in bounds. On an interaction with the 1muNp topology the
  topological cut, and with it \<^verbatim>\<open>signal_1muNp\<close> and \<^verbatim>\<open>other_nu_1muNp\<close>, which
  evaluate it first, reach the out-of-range read, for either record variant.
\<close>

theorem cuts_reach_out_of_range_read:
  "topological_1muNp_cut Truth ex_1mu1p = Inl OutOfRange \<and>
   signal_1muNp Truth ex_1mu1p = Inl OutOfRange \<and>
   other_nu_1muNp Truth ex_1mu1p = Inl OutOfRange \<and>
   signal_1muNp Reco ex_1mu2p = Inl OutOfRange \<and>
   other_nu_1muNp Reco ex_1mu2p = Inl OutOfRange"
  by code_simp

text \<open>
  Claim C3 states that \<^verbatim>\<open>category\<close> returns exactly one of the labels 0, 1, 2, 3 for
  every interaction, with 0 only for a fiducial and contained signal. For the true
  neutrino interaction with one primary muon and one primary proton, fiducial and
  contained, the label should be 0; the evaluation of \<^verbatim>\<open>signal_1muNp\<close> reaches the
  out-of-range read of the topological cut and no label is produced.
\<close>

theorem category_undefined_on_signal:
  "count_primaries Truth ex_1mu1p = Inr [0, 0, 1, 0, 1] \<and> neutrino ex_1mu1p \<and>
   fiducial_cut ex_1mu1p \<and> containment_cut ex_1mu1p \<and>
   category Truth ex_1mu1p = Inl OutOfRange"
  by code_simp

text \<open>
  Claim C4 states that \<^verbatim>\<open>final_state_signal\<close> passes exactly the primary particles
  that are a muon with kinetic energy above 143.425, a photon, electron or pion above 25,
  or a proton above 50, with the kinetic energy of the energy model; that a muon at
  exactly 143.425 fails; and that no particle of type Other passes. The threshold
  143.425 is the double written so, and a muon whose energy is that double fails. The
  equivalence is for particles whose type code is not negative, as all type codes of the
  data model are.
\<close>

theorem final_state_signal_thresholds:
  "(0 \<le> pid p \<longrightarrow>
      (final_state_signal v p \<longleftrightarrow>
         is_primary p \<and>
         ((type_of_code (pid p) = Some Muon \<and>
             dgt (kinetic_energy v p) (Finite lit_143_425)) \<or>
          (type_of_code (pid p) \<in> {Some Photon, Some Electron, Some Pion} \<and>
             dgt (kinetic_energy v p) (Finite 25)) \<or>
          (type_of_code (pid p) = Some Proton \<and> dgt (kinetic_energy v p) (Finite 50))))) \<and>
   (type_of_code (pid p) = Some Muon \<and> kinetic_energy v p = Finite lit_143_425 \<longrightarrow>
      \<not> final_state_signal v p) \<and>
   (type_of_code (pid p) = Some Other \<longrightarrow> \<not> final_state_signal v p)"
  by (cases v)
    (auto simp: final_state_signal_def kinetic_energy_def type_of_code_def dgt_def Let_def
      split: if_splits)

text \<open>
  At the double written \<^verbatim>\<open>143.425\<close> a primary muon fails; at the next double above
  it, at the double written \<^verbatim>\<open>143.426\<close> and at 143.5 it passes; a particle of type
  Other fails at any energy.
\<close>

theorem final_state_signal_thresholds_witness:
  "0 \<le> pid (mk_particle 2 (Finite lit_143_425)) \<and>
   type_of_code (pid (mk_particle 2 (Finite lit_143_425))) = Some Muon \<and>
   kinetic_energy Reco (mk_particle 2 (Finite lit_143_425)) = Finite lit_143_425 \<and>
   \<not> final_state_signal Reco (mk_particle 2 (Finite lit_143_425)) \<and>
   \<not> final_state_signal Truth (mk_particle 2 (Finite lit_143_425)) \<and>
   final_state_signal Reco (mk_particle 2 (Finite (5046318566840731 / 2 ^ 45))) \<and>
   final_state_signal Reco (mk_particle 2 (Finite (2523176875606409 / 2 ^ 44))) \<and>
   final_state_signal Truth (mk_particle 2 (Finite (287 / 2))) \<and>
   type_of_code (pid (mk_particle 5 (Finite 1000))) = Some Other \<and>
   \<not> final_state_signal Truth (mk_particle 5 (Finite 1000))"
  using final_state_signal_thresholds [of "mk_particle 2 (Finite lit_143_425)" Reco]
    final_state_signal_thresholds [of "mk_particle 2 (Finite lit_143_425)" Truth]
    final_state_signal_thresholds [of "mk_particle 2 (Finite (5046318566840731 / 2 ^ 45))" Reco]
    final_state_signal_thresholds [of "mk_particle 2 (Finite (2523176875606409 / 2 ^ 44))" Reco]
    final_state_signal_thresholds [of "mk_particle 2 (Finite (287 / 2))" Truth]
    final_state_signal_thresholds [of "mk_particle 5 (Finite 1000)" Truth]
  by (simp add: mk_particle_def type_of_code_def kinetic_energy_def dgt_def lit_143_425_def)



text \<open>
  Claim C6 describes \<^verbatim>\<open>category_topology\<close>. For a neutrino (\<open>nu_id \<ge> 0\<close>) with no
  photon, no electron and one muon counted: no pion and one proton, or no pion and more
  than one proton, give 2 when the interaction is contained and fiducial and 7
  otherwise; no pion and no proton give 4; one pion and one proton give 4. When the
  photon, electron and muon counts are otherwise, charged current gives 4 and neutral
  current 5. With \<open>nu_id < 0\<close> the label is 6.
\<close>

theorem category_topology_labels:
  "(0 \<le> nu_id i \<and> count_primaries v i = Inr [nph, ne, nmu, npi, npr] \<and>
    nph = 0 \<and> ne = 0 \<and> nmu = 1 \<longrightarrow>
      (npi = 0 \<and> (npr = 1 \<or> npr > 1) \<longrightarrow>
         category_topology v i = Inr (if is_contained i \<and> is_fiducial i then 2 else 7)) \<and>
      (npi = 0 \<and> npr = 0 \<longrightarrow> category_topology v i = Inr 4) \<and>
      (npi = 1 \<and> npr = 1 \<longrightarrow> category_topology v i = Inr 4)) \<and>
   (0 \<le> nu_id i \<and> count_primaries v i = Inr [nph, ne, nmu, npi, npr] \<and>
    \<not> (nph = 0 \<and> ne = 0 \<and> nmu = 1) \<longrightarrow>
      (current_type i = 0 \<longrightarrow> category_topology v i = Inr 4) \<and>
      (current_type i = 1 \<longrightarrow> category_topology v i = Inr 5)) \<and>
   (nu_id i < 0 \<longrightarrow> category_topology v i = Inr 6)"
proof (intro conjI impI)
  assume "nu_id i < 0"
  then show "category_topology v i = Inr 6"
    by (simp add: category_topology_def)
qed (auto simp: category_topology_counts word32_gt_1)

theorem category_topology_labels_witness:
  "(0 \<le> nu_id ex_1mu1p \<and> count_primaries Truth ex_1mu1p = Inr [0, 0, 1, 0, 1] \<and>
      category_topology Truth ex_1mu1p = Inr 2) \<and>
   (0 \<le> nu_id ex_1mu2p \<and> count_primaries Reco ex_1mu2p = Inr [0, 0, 1, 0, 2] \<and>
      category_topology Reco ex_1mu2p = Inr 2) \<and>
   (count_primaries Reco (ex_1mu2p\<lparr>is_contained := False\<rparr>) = Inr [0, 0, 1, 0, 2] \<and>
      category_topology Reco (ex_1mu2p\<lparr>is_contained := False\<rparr>) = Inr 7) \<and>
   (count_primaries Reco (ex_1mu1p\<lparr>particles := [mk_particle 2 (Finite 200)]\<rparr>) =
      Inr [0, 0, 1, 0, 0] \<and>
      category_topology Reco (ex_1mu1p\<lparr>particles := [mk_particle 2 (Finite 200)]\<rparr>) = Inr 4) \<and>
   (count_primaries Reco (ex_1mu1p\<lparr>particles := [], current_type := 1\<rparr>) = Inr [0, 0, 0, 0, 0] \<and>
      category_topology Reco (ex_1mu1p\<lparr>particles := [], current_type := 1\<rparr>) = Inr 5) \<and>
   (nu_id ex_empty < 0 \<and> category_topology Reco ex_empty = Inr 6)"
proof -
  have c1: "count_primaries Truth ex_1mu1p = Inr [0, 0, 1, 0, 1]"
    by code_simp
  have c2: "count_primaries Reco ex_1mu2p = Inr [0, 0, 1, 0, 2]"
    by code_simp
  have c3: "count_primaries Reco (ex_1mu2p\<lparr>is_contained := False\<rparr>) = Inr [0, 0, 1, 0, 2]"
    by code_simp
  have c4: "count_primaries Reco (ex_1mu1p\<lparr>particles := [mk_particle 2 (Finite 200)]\<rparr>) =
      Inr [0, 0, 1, 0, 0]"
    by code_simp
  have c5: "count_primaries Reco (ex_1mu1p\<lparr>particles := [], current_type := 1\<rparr>) =
      Inr [0, 0, 0, 0, 0]"
    by code_simp
  have n: "nu_id ex_1mu1p = 0" "nu_id ex_1mu2p = 0" "nu_id ex_empty = - 2"
    "is_contained ex_1mu1p" "is_fiducial ex_1mu1p" "is_contained ex_1mu2p" "is_fiducial ex_1mu2p"
    by (simp_all add: ex_1mu1p_def ex_1mu2p_def ex_empty_def)
  show ?thesis
    using category_topology_labels [of ex_1mu1p Truth 0 0 1 0 1]
      category_topology_labels [of ex_1mu2p Reco 0 0 1 0 2]
      category_topology_labels [of "ex_1mu2p\<lparr>is_contained := False\<rparr>" Reco 0 0 1 0 2]
      category_topology_labels [of "ex_1mu1p\<lparr>particles := [mk_particle 2 (Finite 200)]\<rparr>" Reco 0 0 1 0 0]
      category_topology_labels [of "ex_1mu1p\<lparr>particles := [], current_type := 1\<rparr>" Reco 0 0 0 0 0]
      category_topology_labels [of ex_empty Reco 0 0 0 0 0]
      c1 c2 c3 c4 c5 n
    by simp
qed

text \<open>
  Claim C7 describes \<^verbatim>\<open>category_interaction_mode\<close>: 7 when \<open>nu_id \<le> -1\<close>; otherwise,
  for a charged-current interaction of a muon neutrino (\<open>|pdg_code| = 14\<close>), the
  generator modes 0, 1, 10, 2, 3 give 0, 1, 2, 3, 4 and every other mode gives 8; a
  charged-current interaction of another flavour gives 5; any other current type, neutral
  current included, gives 6.
\<close>

theorem category_interaction_mode_labels:
  "(nu_id i \<le> - 1 \<longrightarrow> category_interaction_mode i = 7) \<and>
   (nu_id i > - 1 \<and> current_type i = 0 \<and> \<bar>pdg_code i\<bar> = 14 \<longrightarrow>
      (interaction_mode i = 0 \<longrightarrow> category_interaction_mode i = 0) \<and>
      (interaction_mode i = 1 \<longrightarrow> category_interaction_mode i = 1) \<and>
      (interaction_mode i = 10 \<longrightarrow> category_interaction_mode i = 2) \<and>
      (interaction_mode i = 2 \<longrightarrow> category_interaction_mode i = 3) \<and>
      (interaction_mode i = 3 \<longrightarrow> category_interaction_mode i = 4) \<and>
      (interaction_mode i \<notin> {0, 1, 10, 2, 3} \<longrightarrow> category_interaction_mode i = 8)) \<and>
   (nu_id i > - 1 \<and> current_type i = 0 \<and> \<bar>pdg_code i\<bar> \<noteq> 14 \<longrightarrow>
      category_interaction_mode i = 5) \<and>
   (nu_id i > - 1 \<and> current_type i \<noteq> 0 \<longrightarrow> category_interaction_mode i = 6)"
  by (simp add: category_interaction_mode_def)

theorem category_interaction_mode_labels_witness:
  "(nu_id ex_empty \<le> - 1 \<and> category_interaction_mode ex_empty = 7) \<and>
   (nu_id ex_1mu1p > - 1 \<and> current_type ex_1mu1p = 0 \<and> \<bar>pdg_code ex_1mu1p\<bar> = 14 \<and>
      interaction_mode ex_1mu1p = 0 \<and> category_interaction_mode ex_1mu1p = 0) \<and>
   category_interaction_mode (ex_1mu1p\<lparr>pdg_code := - 14, interaction_mode := 10\<rparr>) = 2 \<and>
   category_interaction_mode (ex_1mu1p\<lparr>interaction_mode := 7\<rparr>) = 8 \<and>
   category_interaction_mode (ex_1mu1p\<lparr>pdg_code := 12\<rparr>) = 5 \<and>
   category_interaction_mode (ex_1mu1p\<lparr>current_type := 1\<rparr>) = 6"
  using category_interaction_mode_labels [of ex_empty]
    category_interaction_mode_labels [of ex_1mu1p]
    category_interaction_mode_labels [of "ex_1mu1p\<lparr>pdg_code := - 14, interaction_mode := 10\<rparr>"]
    category_interaction_mode_labels [of "ex_1mu1p\<lparr>interaction_mode := 7\<rparr>"]
    category_interaction_mode_labels [of "ex_1mu1p\<lparr>pdg_code := 12\<rparr>"]
    category_interaction_mode_labels [of "ex_1mu1p\<lparr>current_type := 1\<rparr>"]
  by (simp add: ex_1mu1p_def ex_empty_def)

text \<open>
  Claim C8 states that the topology label writes the five counts in the order photon,
  electron, muon, pion, proton, each followed by its letters \<open>ph\<close>, \<open>e\<close>, \<open>mu\<close>,
  \<open>pi\<close>, \<open>p\<close>, and nothing else, so that the counts 0, 0, 1, 0, 2 give
  \<open>0ph0e1mu0pi2p\<close>. A label is produced for every interaction whose type codes are in
  0..5.
\<close>

theorem topology_label_format:
  "(count_primaries v i = Inr [nph, ne, nmu, npi, npr] \<longrightarrow>
      topology v i =
        Inr (string_of_nat (unat nph) @ ''ph'' @ string_of_nat (unat ne) @ ''e'' @
             string_of_nat (unat nmu) @ ''mu'' @ string_of_nat (unat npi) @ ''pi'' @
             string_of_nat (unat npr) @ ''p'')) \<and>
   (count_primaries v i = Inr [0, 0, 1, 0, 2] \<longrightarrow> topology v i = Inr ''0ph0e1mu0pi2p'') \<and>
   ((\<forall>p\<in>set (particles i). pid p \<in> {0..5}) \<longrightarrow> (\<exists>s. topology v i = Inr s))"
proof (intro conjI impI)
  assume "count_primaries v i = Inr [nph, ne, nmu, npi, npr]"
  then show "topology v i =
        Inr (string_of_nat (unat nph) @ ''ph'' @ string_of_nat (unat ne) @ ''e'' @
             string_of_nat (unat nmu) @ ''mu'' @ string_of_nat (unat npi) @ ''pi'' @
             string_of_nat (unat npr) @ ''p'')"
    by (simp add: topology_counts label_of_counts_def)
next
  have "label_of_counts 0 0 1 0 2 = ''0ph0e1mu0pi2p''"
    by code_simp
  moreover assume "count_primaries v i = Inr [0, 0, 1, 0, 2]"
  ultimately show "topology v i = Inr ''0ph0e1mu0pi2p''"
    by (simp add: topology_counts)
next
  assume "\<forall>p\<in>set (particles i). pid p \<in> {0..5}"
  then obtain c where c: "count_primaries v i = Inr c"
    using count_primaries_total by blast
  then obtain a0 a1 a2 a3 a4 where "c = [a0, a1, a2, a3, a4]"
    using count_primaries_shape by blast
  with c show "\<exists>s. topology v i = Inr s"
    by (simp add: topology_counts)
qed

theorem topology_label_format_witness:
  "count_primaries Reco ex_1mu2p = Inr [0, 0, 1, 0, 2] \<and>
   map pid (particles ex_1mu2p) = [2, 4, 4] \<and>
   topology Reco ex_1mu2p = Inr ''0ph0e1mu0pi2p''"
proof -
  have h1: "count_primaries Reco ex_1mu2p = Inr [0, 0, 1, 0, 2]"
    by code_simp
  have h2: "map pid (particles ex_1mu2p) = [2, 4, 4]"
    by (simp add: ex_1mu2p_def ex_1mu1p_def mk_particle_def)
  have "topology Reco ex_1mu2p = Inr ''0ph0e1mu0pi2p''"
    using topology_label_format [of Reco ex_1mu2p 0 0 1 0 2] h1 by blast
  with h1 h2 show ?thesis
    by blast
qed


text \<open>
  Claim C10 states that \<^verbatim>\<open>count_primaries\<close>, on an interaction whose particles all
  have a type code in 0..5, returns a vector of five counts and increments in bounds
  only, since no particle with type code 5 passes \<^verbatim>\<open>final_state_signal\<close>. Bucket
  \<open>k\<close> then holds the number of passing particles of type code \<open>k\<close> (as a 32-bit
  value).
\<close>

theorem count_primaries_in_bounds:
  assumes "\<forall>p\<in>set (particles i). pid p \<in> {0..5}"
  shows "(\<exists>c. count_primaries v i = Inr c \<and> length c = 5 \<and>
            c = map (\<lambda>k. word_of_nat (n_signal v (particles i) (int k))) [0..<5]) \<and>
         (\<forall>p\<in>set (particles i). final_state_signal v p \<longrightarrow> pid p \<in> {0..4}) \<and>
         (\<forall>q. 5 \<le> pid q \<longrightarrow> \<not> final_state_signal v q)"
proof (intro conjI)
  from assms obtain c where c: "count_primaries v i = Inr c"
    using count_primaries_total by blast
  then obtain a0 a1 a2 a3 a4 where shape: "c = [a0, a1, a2, a3, a4]"
    using count_primaries_shape by blast
  have "[0..<5] = [0, 1, 2, 3, 4]"
    by (simp add: upt_rec)
  with count_primaries_values [OF c [unfolded shape]] shape
  have "c = map (\<lambda>k. word_of_nat (n_signal v (particles i) (int k))) [0..<5]"
    by simp
  with c shape
  show "\<exists>c. count_primaries v i = Inr c \<and> length c = 5 \<and>
          c = map (\<lambda>k. word_of_nat (n_signal v (particles i) (int k))) [0..<5]"
    by simp
next
  show "\<forall>p\<in>set (particles i). final_state_signal v p \<longrightarrow> pid p \<in> {0..4}"
  proof (intro ballI impI)
    fix p
    assume "p \<in> set (particles i)" and "final_state_signal v p"
    with assms final_state_signal_pid_less [of v p] show "pid p \<in> {0..4}"
      by auto
  qed
next
  show "\<forall>q. 5 \<le> pid q \<longrightarrow> \<not> final_state_signal v q"
    using final_state_signal_pid_less [of v] by fastforce
qed

theorem count_primaries_in_bounds_witness:
  "map pid (particles ex_1mu2p) = [2, 4, 4] \<and>
   count_primaries Reco ex_1mu2p = Inr [0, 0, 1, 0, 2]"
proof -
  have pids: "map pid (particles ex_1mu2p) = [2, 4, 4]"
    by (simp add: ex_1mu2p_def ex_1mu1p_def mk_particle_def)
  have h: "\<forall>p\<in>set (particles ex_1mu2p). pid p \<in> {0..5}"
    by (simp add: ex_1mu2p_def ex_1mu1p_def mk_particle_def)
  from count_primaries_in_bounds [OF h, of Reco]
  obtain c where c: "count_primaries Reco ex_1mu2p = Inr c"
    and "c = map (\<lambda>k. word_of_nat (n_signal Reco (particles ex_1mu2p) (int k))) [0..<5]"
    by blast
  moreover have
    "map (\<lambda>k. word_of_nat (n_signal Reco (particles ex_1mu2p) (int k))) [0..<5] =
       [0, 0, 1, 0, 2 :: 32 word]"
    by code_simp
  ultimately show ?thesis
    using pids by simp
qed

end
